theory Spec2Isabelle
  imports Main
begin

section \<open>JavaScript values\<close>

text \<open>
  The values that travel through the front-end code: JSON-like data, plus
  \<open>undefined\<close>. Numbers are the integral ones; an object is its list of
  properties, read by the first entry for a key.
\<close>

datatype jsval =
    JUndefined
  | JNull
  | JBool bool
  | JNum int
  | JStr string
  | JArr "jsval list"
  | JObj "(string \<times> jsval) list"

text \<open>The value thrown when a property of \<open>null\<close> or \<open>undefined\<close> is read.\<close>

definition TypeError :: jsval where
  "TypeError = JObj [(''name'', JStr ''TypeError'')]"

definition nullish :: "jsval \<Rightarrow> bool" where
  "nullish v = (v = JUndefined \<or> v = JNull)"

text \<open>\<open>!!v\<close>: the falsy values are undefined, null, false, 0 and the empty string.\<close>

fun truthy :: "jsval \<Rightarrow> bool" where
  "truthy JUndefined = False"
| "truthy JNull = False"
| "truthy (JBool b) = b"
| "truthy (JNum n) = (n \<noteq> 0)"
| "truthy (JStr s) = (s \<noteq> [])"
| "truthy (JArr xs) = True"
| "truthy (JObj kvs) = True"

text \<open>\<open>a || b\<close> on values.\<close>

definition js_or :: "jsval \<Rightarrow> jsval \<Rightarrow> jsval" where
  "js_or a b = (if truthy a then a else b)"

function nat_to_string :: "nat \<Rightarrow> string" where
  "nat_to_string n =
     (if n < 10 then [''0123456789'' ! n]
      else nat_to_string (n div 10) @ [''0123456789'' ! (n mod 10)])"
  by pat_completeness auto
termination
  by (relation "measure (\<lambda>n. n)") auto

definition int_to_string :: "int \<Rightarrow> string" where
  "int_to_string i =
     (if i < 0 then CHR ''-'' # nat_to_string (nat (- i)) else nat_to_string (nat i))"

fun join_comma :: "string list \<Rightarrow> string" where
  "join_comma [] = []"
| "join_comma [s] = s"
| "join_comma (s # t # ss) = s @ '','' @ join_comma (t # ss)"

text \<open>
  The conversion a template literal \<open>`...${v}...`\<close> applies to \<open>v\<close>. An array
  joins its elements with commas, null and undefined elements giving the empty
  string; a plain object prints as \<open>[object Object]\<close>. The identifiers the
  code interpolates are documented as strings, where the conversion is the
  identity; for the rest, numbers are printed in full (as JavaScript does
  below \<open>1e21\<close>) and objects are plain data without a \<open>toString\<close> of their
  own.
\<close>

fun ToString :: "jsval \<Rightarrow> string" where
  "ToString JUndefined = ''undefined''"
| "ToString JNull = ''null''"
| "ToString (JBool b) = (if b then ''true'' else ''false'')"
| "ToString (JNum n) = int_to_string n"
| "ToString (JStr s) = s"
| "ToString (JArr xs) =
     join_comma (map (\<lambda>x. if x = JUndefined \<or> x = JNull then [] else ToString x) xs)"
| "ToString (JObj kvs) = ''[object Object]''"

text \<open>
  \<open>v.k\<close>: reading a property of null or undefined throws (\<open>Inl\<close>); an object
  gives the property or undefined; the other values have none of the
  properties the code reads.
\<close>

fun get_prop :: "jsval \<Rightarrow> string \<Rightarrow> jsval + jsval" where
  "get_prop JUndefined k = Inl TypeError"
| "get_prop JNull k = Inl TypeError"
| "get_prop (JObj kvs) k = Inr (case map_of kvs k of None \<Rightarrow> JUndefined | Some v \<Rightarrow> v)"
| "get_prop v k = Inr JUndefined"

text \<open>A chain of property reads \<open>v.k1.k2...\<close>, stopping at the first that throws.\<close>

fun get_path :: "jsval \<Rightarrow> string list \<Rightarrow> jsval + jsval" where
  "get_path v [] = Inr v"
| "get_path v (k # ks) =
     (case get_prop v k of Inl thrown \<Rightarrow> Inl thrown | Inr u \<Rightarrow> get_path u ks)"

text \<open>\<open>v[i]\<close> for a literal index \<open>i\<close>.\<close>

fun get_index :: "jsval \<Rightarrow> nat \<Rightarrow> jsval + jsval" where
  "get_index JUndefined i = Inl TypeError"
| "get_index JNull i = Inl TypeError"
| "get_index (JArr xs) i = Inr (if i < length xs then xs ! i else JUndefined)"
| "get_index (JStr s) i = Inr (if i < length s then JStr [s ! i] else JUndefined)"
| "get_index (JObj kvs) i =
     Inr (case map_of kvs (nat_to_string i) of None \<Rightarrow> JUndefined | Some v \<Rightarrow> v)"
| "get_index v i = Inr JUndefined"

text \<open>
  \<open>Object.keys(v)\<close>: throws on null and undefined; the own enumerable keys
  otherwise (only their number is used by the code).
\<close>

fun Object_keys :: "jsval \<Rightarrow> jsval + string list" where
  "Object_keys JUndefined = Inl TypeError"
| "Object_keys JNull = Inl TypeError"
| "Object_keys (JObj kvs) = Inr (remdups (map fst kvs))"
| "Object_keys (JArr xs) = Inr (map nat_to_string [0..<length xs])"
| "Object_keys (JStr s) = Inr (map nat_to_string [0..<length s])"
| "Object_keys v = Inr []"

section \<open>Promises, the event bus and the console\<close>

text \<open>
  A promise is observed once the event loop is idle: fulfilled with a value,
  rejected with a reason, or still pending (a request that never gets an
  answer).
\<close>

datatype settled = Fulfilled jsval | Rejected jsval | Pending

text \<open>
  What the code changes outside its return value: the events published with
  \<open>EventBus.$emit\<close> and the values passed to \<open>console.log\<close>, both oldest
  first.
\<close>

record world =
  events :: "(string \<times> jsval) list"
  console :: "jsval list"

text \<open>A handler either throws (\<open>Inl\<close>) or returns (\<open>Inr\<close>), and may change the world.\<close>

type_synonym handler = "jsval \<Rightarrow> world \<Rightarrow> (jsval + jsval) \<times> world"

definition emit :: "string \<Rightarrow> jsval \<Rightarrow> world \<Rightarrow> world" where
  "emit name payload w = w\<lparr>events := events w @ [(name, payload)]\<rparr>"

definition console_log :: "jsval \<Rightarrow> world \<Rightarrow> world" where
  "console_log v w = w\<lparr>console := console w @ [v]\<rparr>"

definition run_handler :: "handler \<Rightarrow> jsval \<Rightarrow> world \<Rightarrow> settled \<times> world" where
  "run_handler h v w =
     (case h v w of
        (Inl thrown, w') \<Rightarrow> (Rejected thrown, w')
      | (Inr returned, w') \<Rightarrow> (Fulfilled returned, w'))"

text \<open>\<open>p.then(onFulfilled)\<close>: a rejection passes through.\<close>

definition then1 :: "settled \<Rightarrow> handler \<Rightarrow> world \<Rightarrow> settled \<times> world" where
  "then1 p onFulfilled w =
     (case p of
        Fulfilled v \<Rightarrow> run_handler onFulfilled v w
      | Rejected e \<Rightarrow> (Rejected e, w)
      | Pending \<Rightarrow> (Pending, w))"

text \<open>\<open>p.then(onFulfilled, onRejected)\<close>.\<close>

definition then2 :: "settled \<Rightarrow> handler \<Rightarrow> handler \<Rightarrow> world \<Rightarrow> settled \<times> world" where
  "then2 p onFulfilled onRejected w =
     (case p of
        Fulfilled v \<Rightarrow> run_handler onFulfilled v w
      | Rejected e \<Rightarrow> run_handler onRejected e w
      | Pending \<Rightarrow> (Pending, w))"

text \<open>\<open>p.catch(onRejected)\<close>: a fulfilment passes through.\<close>

definition catch :: "settled \<Rightarrow> handler \<Rightarrow> world \<Rightarrow> settled \<times> world" where
  "catch p onRejected w =
     (case p of
        Fulfilled v \<Rightarrow> (Fulfilled v, w)
      | Rejected e \<Rightarrow> run_handler onRejected e w
      | Pending \<Rightarrow> (Pending, w))"

section \<open>The HTTP client\<close>

datatype http_method = GET | POST

record http_request =
  verb :: http_method
  url :: string
  body :: jsval

text \<open>
  The transport (axios and the server behind it) is a parameter: for each
  request, the promise it answers with.
\<close>

type_synonym http = "http_request \<Rightarrow> settled"

section \<open>The Validate client\<close>

text \<open>The axios instance of the validation endpoints, bound to its base URL.\<close>

definition Validate_post :: "http \<Rightarrow> string \<Rightarrow> jsval \<Rightarrow> settled" where
  "Validate_post transport path payload =
     transport \<lparr>verb = POST, url = ''/service/validate'' @ path, body = payload\<rparr>"

definition createErrorPayload :: "jsval \<Rightarrow> jsval + jsval" where
  "createErrorPayload err =
     (case get_path err [''response'', ''data'', ''error_key''] of
        Inl thrown \<Rightarrow> Inl thrown
      | Inr k \<Rightarrow> Inr (JObj [(''valid'', JBool False), (''data'', k)]))"

text \<open>
  \<open>cpr\<close> reads \<open>org[0]\<close> while it builds the payload, before any request is
  made: when that throws, the call itself throws (\<open>Inl\<close>) and returns no
  promise.
\<close>

definition cpr :: "http \<Rightarrow> jsval \<Rightarrow> jsval \<Rightarrow> world \<Rightarrow> (jsval + settled) \<times> world" where
  "cpr transport cpr_no org w =
     (case get_index org 0 of
        Inl thrown \<Rightarrow> (Inl thrown, w)
      | Inr org0 \<Rightarrow>
          (let payload = JObj [(''cpr_no'', cpr_no), (''org'', JObj [(''uuid'', org0)])];
               (p, w') = then2 (Validate_post transport ''/cpr/'' payload)
                           (\<lambda>result w. (Inr (JBool True), w))
                           (\<lambda>err w. (createErrorPayload err, w)) w
           in (Inr p, w')))"

definition orgUnit :: "http \<Rightarrow> jsval \<Rightarrow> jsval \<Rightarrow> world \<Rightarrow> settled \<times> world" where
  "orgUnit transport org_unit validity w =
     (let payload = JObj [(''org_unit'', JObj [(''uuid'', org_unit)]), (''validity'', validity)]
      in then2 (Validate_post transport ''/org-unit/'' payload)
           (\<lambda>result w. (Inr (JBool True), w))
           (\<lambda>err w. (createErrorPayload err, w)) w)"

section \<open>The Employee client\<close>

text \<open>
  \<open>Service\<close> is the axios instance of the service endpoints, imported from
  \<open>./HttpCommon\<close>; it is a parameter here, called with the paths as the code
  writes them. The second parameter of
  \<open>createEntry\<close>, \<open>create\<close>, \<open>leave\<close>, \<open>edit\<close>, \<open>move\<close> and \<open>terminate\<close>
  (named \<open>create\<close>, \<open>leave\<close>, \<open>edit\<close>, \<open>move\<close>, \<open>end\<close> in the code) is called
  \<open>payload\<close> here.
\<close>

definition Service_get :: "http \<Rightarrow> string \<Rightarrow> settled" where
  "Service_get Service path = Service \<lparr>verb = GET, url = path, body = JUndefined\<rparr>"

definition Service_post :: "http \<Rightarrow> string \<Rightarrow> jsval \<Rightarrow> settled" where
  "Service_post Service path payload = Service \<lparr>verb = POST, url = path, body = payload\<rparr>"

text \<open>The handler \<open>error => { console.log(error.response) }\<close>.\<close>

definition log_error_response :: handler where
  "log_error_response error w =
     (case get_prop error ''response'' of
        Inl thrown \<Rightarrow> (Inl thrown, w)
      | Inr r \<Rightarrow> (Inr JUndefined, console_log r w))"

definition getAll :: "http \<Rightarrow> jsval \<Rightarrow> world \<Rightarrow> settled \<times> world" where
  "getAll Service orgUuid w =
     (let (p, w1) = then1 (Service_get Service (''/o/'' @ ToString orgUuid @ ''/e/''))
                      (\<lambda>response w.
                         (case get_path response [''data'', ''items''] of
                            Inl thrown \<Rightarrow> (Inl thrown, w)
                          | Inr items \<Rightarrow> (Inr items, w))) w
      in catch p log_error_response w1)"

definition get :: "http \<Rightarrow> jsval \<Rightarrow> world \<Rightarrow> settled \<times> world" where
  "get Service uuid w =
     (let (p, w1) = then1 (Service_get Service (''/e/'' @ ToString uuid @ ''/''))
                      (\<lambda>response w.
                         (case get_path response [''data'', ''org''] of
                            Inl thrown \<Rightarrow> (Inl thrown, w)
                          | Inr org \<Rightarrow>
                              (let w' = emit ''organisation-changed'' org w
                               in (get_prop response ''data'', w')))) w
      in catch p log_error_response w1)"

definition history :: "http \<Rightarrow> jsval \<Rightarrow> world \<Rightarrow> settled \<times> world" where
  "history Service uuid w =
     then1 (Service_get Service (''/e/'' @ ToString uuid @ ''/history/''))
       (\<lambda>response w. (get_prop response ''data'', w)) w"

definition getDetail :: "http \<Rightarrow> jsval \<Rightarrow> jsval \<Rightarrow> jsval \<Rightarrow> world \<Rightarrow> settled \<times> world" where
  "getDetail Service uuid detail validity w =
     (let validity' = js_or validity (JStr ''present'');
          (p, w1) = then1 (Service_get Service
                             (''/e/'' @ ToString uuid @ ''/details/'' @ ToString detail
                                @ ''?validity='' @ ToString validity'))
                      (\<lambda>response w. (get_prop response ''data'', w)) w
      in catch p log_error_response w1)"

definition getEngagementDetails :: "http \<Rightarrow> jsval \<Rightarrow> jsval \<Rightarrow> world \<Rightarrow> settled \<times> world" where
  "getEngagementDetails Service uuid validity w =
     getDetail Service uuid (JStr ''engagement'') validity w"

definition getRoleDetails :: "http \<Rightarrow> jsval \<Rightarrow> jsval \<Rightarrow> world \<Rightarrow> settled \<times> world" where
  "getRoleDetails Service uuid validity w = getDetail Service uuid (JStr ''role'') validity w"

definition getItDetails :: "http \<Rightarrow> jsval \<Rightarrow> jsval \<Rightarrow> world \<Rightarrow> settled \<times> world" where
  "getItDetails Service uuid validity w = getDetail Service uuid (JStr ''it'') validity w"

definition getAssociationDetails :: "http \<Rightarrow> jsval \<Rightarrow> jsval \<Rightarrow> world \<Rightarrow> settled \<times> world" where
  "getAssociationDetails Service uuid validity w =
     getDetail Service uuid (JStr ''association'') validity w"

definition getLeaveDetails :: "http \<Rightarrow> jsval \<Rightarrow> jsval \<Rightarrow> world \<Rightarrow> settled \<times> world" where
  "getLeaveDetails Service uuid validity w = getDetail Service uuid (JStr ''leave'') validity w"

definition getDetailList :: "http \<Rightarrow> jsval \<Rightarrow> world \<Rightarrow> settled \<times> world" where
  "getDetailList Service uuid w =
     (let (p, w1) = then1 (Service_get Service (''e/'' @ ToString uuid @ ''/details/''))
                      (\<lambda>response w. (get_prop response ''data'', w)) w
      in catch p log_error_response w1)"

text \<open>
  The success handler shared by \<open>createEntry\<close> and \<open>edit\<close>:
  \<open>response => { EventBus.$emit('employee-changed', response.data); return response.data }\<close>.
  The argument \<open>response.data\<close> is evaluated before the event is published.
\<close>

definition publish_changed :: handler where
  "publish_changed response w =
     (case get_prop response ''data'' of
        Inl thrown \<Rightarrow> (Inl thrown, w)
      | Inr d \<Rightarrow> (Inr d, emit ''employee-changed'' d w))"

definition createEntry :: "http \<Rightarrow> jsval \<Rightarrow> jsval \<Rightarrow> world \<Rightarrow> settled \<times> world" where
  "createEntry Service uuid payload w =
     (let (p, w1) = then1 (Service_post Service (''/e/'' @ ToString uuid @ ''/create'') payload)
                      publish_changed w
      in catch p log_error_response w1)"

definition create :: "http \<Rightarrow> jsval \<Rightarrow> jsval \<Rightarrow> world \<Rightarrow> settled \<times> world" where
  "create Service uuid payload w =
     (let (p, w1) = createEntry Service uuid payload w
      in then1 p (\<lambda>response w. (Inr JUndefined, emit ''employee-create'' response w)) w1)"

definition leave :: "http \<Rightarrow> jsval \<Rightarrow> jsval \<Rightarrow> world \<Rightarrow> settled \<times> world" where
  "leave Service uuid payload w =
     (let (p, w1) = createEntry Service uuid payload w
      in then1 p (\<lambda>response w. (Inr JUndefined, emit ''employee-leave'' response w)) w1)"

definition edit :: "http \<Rightarrow> jsval \<Rightarrow> jsval \<Rightarrow> world \<Rightarrow> settled \<times> world" where
  "edit Service uuid payload w =
     (let (p, w1) = then1 (Service_post Service (''/e/'' @ ToString uuid @ ''/edit'') payload)
                      publish_changed w
      in catch p log_error_response w1)"

definition move :: "http \<Rightarrow> jsval \<Rightarrow> jsval \<Rightarrow> world \<Rightarrow> settled \<times> world" where
  "move Service uuid payload w =
     (let (p, w1) = edit Service uuid payload w
      in then1 p (\<lambda>response w. (Inr JUndefined, emit ''employee-move'' response w)) w1)"

definition terminate :: "http \<Rightarrow> jsval \<Rightarrow> jsval \<Rightarrow> world \<Rightarrow> settled \<times> world" where
  "terminate Service uuid payload w =
     (let (p, w1) = then1 (Service_post Service (''/e/'' @ ToString uuid @ ''/terminate'') payload)
                      (\<lambda>response w.
                         (case get_prop response ''data'' of
                            Inl thrown \<Rightarrow> (Inl thrown, w)
                          | Inr d \<Rightarrow>
                              (let w' = emit ''employee-changed'' d w;
                                   w'' = emit ''employee-terminate'' d w'
                               in (Inr d, w'')))) w
      in catch p log_error_response w1)"

section \<open>The validation rule adapters\<close>

text \<open>
  \<open>validate\<close> returns a plain value or a promise, or throws. The
  form-validation framework passes the rule's arguments as an array; reading
  past its end gives undefined.
\<close>

datatype outcome = Value jsval | Promise settled

definition arg :: "jsval list \<Rightarrow> nat \<Rightarrow> jsval" where
  "arg args i = (if i < length args then args ! i else JUndefined)"

text \<open>
  The association rule. The check \<open>Validate.existingAssociations\<close> that it
  ends in is a parameter. The guard is evaluated left to right and stops at
  the first true disjunct.
\<close>

definition validate_association ::
  "(jsval \<Rightarrow> jsval \<Rightarrow> jsval \<Rightarrow> jsval \<Rightarrow> jsval + outcome) \<Rightarrow> jsval \<Rightarrow> jsval list \<Rightarrow> jsval + outcome"
where
  "validate_association existingAssociations value args =
     (let employee = arg args 0;
          org_unit = arg args 1;
          validity = arg args 2;
          associationUuid = arg args 3
      in if \<not> truthy validity then Inr (Value (JBool True))
         else (case get_prop validity ''from'' of
                 Inl thrown \<Rightarrow> Inl thrown
               | Inr from \<Rightarrow>
                   if \<not> truthy from then Inr (Value (JBool True))
                   else (case Object_keys employee of
                           Inl thrown \<Rightarrow> Inl thrown
                         | Inr keys \<Rightarrow>
                             if length keys = 0 then Inr (Value (JBool True))
                             else if \<not> truthy employee then Inr (Value (JBool True))
                             else existingAssociations org_unit employee validity
                                    associationUuid)))"

text \<open>
  The candidate parent rule; the check \<open>Validate.candidateParentOrgUnit\<close>
  is a parameter as well.
\<close>

definition validate_candidate_parent ::
  "(jsval \<Rightarrow> jsval \<Rightarrow> jsval \<Rightarrow> jsval + outcome) \<Rightarrow> jsval \<Rightarrow> jsval list \<Rightarrow> jsval + outcome"
where
  "validate_candidate_parent candidateParentOrgUnit value args =
     (let org_unit = arg args 0;
          parent = arg args 1;
          validity = arg args 2
      in if \<not> truthy validity then Inr (Value (JBool True))
         else (case get_prop validity ''from'' of
                 Inl thrown \<Rightarrow> Inl thrown
               | Inr from \<Rightarrow>
                   if \<not> truthy from then Inr (Value (JBool True))
                   else candidateParentOrgUnit org_unit parent validity))"

definition getMessage :: "jsval \<Rightarrow> jsval list \<Rightarrow> jsval \<Rightarrow> jsval" where
  "getMessage value args data = data"

section \<open>The organisation unit picker\<close>

record picker =
  selectedSuperUnit :: jsval
  showTree :: bool
  orgName :: jsval

definition data :: picker where
  "data = \<lparr>selectedSuperUnit = JNull, showTree = False, orgName = JNull\<rparr>"

definition toggleTree :: "picker \<Rightarrow> picker" where
  "toggleTree this = this\<lparr>showTree := \<not> showTree this\<rparr>"

section \<open>Observations on a call\<close>

text \<open>The events a call published: those added to the bus between two worlds.\<close>

definition published :: "world \<Rightarrow> world \<Rightarrow> (string \<times> jsval) list" where
  "published w w' = drop (length (events w)) (events w')"

definition generic_count :: "(string \<times> jsval) list \<Rightarrow> nat" where
  "generic_count evs = length (filter (\<lambda>e. fst e = ''employee-changed'') evs)"

definition specific_names :: "string list" where
  "specific_names =
     [''employee-create'', ''employee-leave'', ''employee-move'', ''employee-terminate'']"

text \<open>No operation-specific event comes before the first generic one.\<close>

definition generic_first :: "(string \<times> jsval) list \<Rightarrow> bool" where
  "generic_first evs =
     list_all (\<lambda>e. fst e \<notin> set specific_names)
       (takeWhile (\<lambda>e. fst e \<noteq> ''employee-changed'') evs)"

text \<open>
  A rejection without a response body: the reason itself, its \<open>response\<close> or
  the response's \<open>data\<close> is null or undefined. (A body that is there and only
  lacks the \<open>error_key\<close> field is not such a rejection.)
\<close>

definition no_response_body :: "jsval \<Rightarrow> bool" where
  "no_response_body err =
     (case get_path err [''response'', ''data''] of
        Inl thrown \<Rightarrow> True
      | Inr d \<Rightarrow> nullish d)"

section \<open>Concrete scenarios\<close>

definition idle :: world where
  "idle = \<lparr>events = [], console = []\<rparr>"

definition employee_body :: jsval where
  "employee_body = JObj [(''org'', JObj [(''uuid'', JStr ''org-1'')]), (''name'', JStr ''X'')]"

text \<open>A backend that knows the employee \<open>uuid-1\<close> and answers nothing else.\<close>

definition mock_backend :: http where
  "mock_backend req =
     (if verb req = GET \<and> url req = ''/e/uuid-1/''
      then Fulfilled (JObj [(''status'', JNum 200), (''data'', employee_body)])
      else Pending)"

text \<open>A backend that accepts every request and answers with the employee's uuid.\<close>

definition accepting_backend :: http where
  "accepting_backend req =
     Fulfilled (JObj [(''status'', JNum 200), (''data'', JObj [(''uuid'', JStr ''uuid-1'')])])"

text \<open>A backend that refuses every request with status 500 and an error key.\<close>

definition server_error :: jsval where
  "server_error =
     JObj [(''response'',
            JObj [(''status'', JNum 500),
                  (''data'', JObj [(''error_key'', JStr ''E_UNKNOWN'')])])]"

definition refusing_backend :: http where
  "refusing_backend req = Rejected server_error"

text \<open>A request that fails without any response (the network is down).\<close>

definition network_error :: jsval where
  "network_error = JObj [(''message'', JStr ''Network Error'')]"

definition offline_backend :: http where
  "offline_backend req = Rejected network_error"

text \<open>
  A backend that refuses every request with status 500 and an empty JSON
  object as body: the body is there, the error key is not.
\<close>

definition keyless_error :: jsval where
  "keyless_error = JObj [(''response'', JObj [(''status'', JNum 500), (''data'', JObj [])])]"

definition keyless_backend :: http where
  "keyless_backend req = Rejected keyless_error"

text \<open>Stand-ins for the two checks of the Validate client that the adapters call.\<close>

definition pending_existingAssociations ::
  "jsval \<Rightarrow> jsval \<Rightarrow> jsval \<Rightarrow> jsval \<Rightarrow> jsval + outcome"
where
  "pending_existingAssociations org_unit employee validity associationUuid =
     Inr (Promise Pending)"

definition pending_candidateParentOrgUnit ::
  "jsval \<Rightarrow> jsval \<Rightarrow> jsval \<Rightarrow> jsval + outcome"
where
  "pending_candidateParentOrgUnit org_unit parent validity = Inr (Promise Pending)"

section \<open>Basic facts\<close>

lemma truthy_not_nullish: "truthy v \<Longrightarrow> \<not> nullish v"
  by (cases v) (simp_all add: nullish_def)

lemma get_prop_throws_iff: "(get_prop v k = Inl t) = (nullish v \<and> t = TypeError)"
  by (cases v) (auto simp: nullish_def)

lemma get_prop_nullish: "nullish v \<Longrightarrow> get_prop v k = Inl TypeError"
  by (auto simp: nullish_def)

lemma get_prop_defined: "\<not> nullish v \<Longrightarrow> \<exists>u. get_prop v k = Inr u"
  by (cases v) (simp_all add: nullish_def)

lemma events_emit: "events (emit name payload w) = events w @ [(name, payload)]"
  by (simp add: emit_def)

lemma events_console_log: "events (console_log v w) = events w"
  by (simp add: console_log_def)

lemma published_append: "events w' = events w @ evs \<Longrightarrow> published w w' = evs"
  by (simp add: published_def)

lemma generic_changed_only:
  "generic_count [(''employee-changed'', d)] = 1 \<and> generic_first [(''employee-changed'', d)]"
  by (simp add: generic_count_def generic_first_def)

lemma generic_changed_then:
  "name \<noteq> ''employee-changed'' \<Longrightarrow>
   generic_count [(''employee-changed'', d), (name, d')] = 1
   \<and> generic_first [(''employee-changed'', d), (name, d')]"
  by (simp add: generic_count_def generic_first_def)

section \<open>The Validate client: what a call resolves to\<close>

lemma createErrorPayload_no_body:
  "no_response_body err \<Longrightarrow> createErrorPayload err = Inl TypeError"
  by (auto simp: no_response_body_def createErrorPayload_def get_prop_throws_iff
      get_prop_nullish split: sum.splits)

lemma createErrorPayload_wellformed:
  "get_path err [''response'', ''data'', ''error_key''] = Inr k \<Longrightarrow>
   createErrorPayload err = Inr (JObj [(''valid'', JBool False), (''data'', k)])"
  by (simp add: createErrorPayload_def)


lemma cpr_unfold:
  "get_index org 0 = Inr org0 \<Longrightarrow>
   cpr transport cpr_no org w =
     (case Validate_post transport ''/cpr/''
             (JObj [(''cpr_no'', cpr_no), (''org'', JObj [(''uuid'', org0)])]) of
        Fulfilled result \<Rightarrow> (Inr (Fulfilled (JBool True)), w)
      | Rejected err \<Rightarrow>
          (case createErrorPayload err of
             Inl thrown \<Rightarrow> (Inr (Rejected thrown), w)
           | Inr v \<Rightarrow> (Inr (Fulfilled v), w))
      | Pending \<Rightarrow> (Inr Pending, w))"
  by (simp add: cpr_def then2_def run_handler_def split: settled.splits sum.splits)


lemma orgUnit_unfold:
  "orgUnit transport org_unit validity w =
     (case Validate_post transport ''/org-unit/''
             (JObj [(''org_unit'', JObj [(''uuid'', org_unit)]), (''validity'', validity)]) of
        Fulfilled result \<Rightarrow> (Fulfilled (JBool True), w)
      | Rejected err \<Rightarrow>
          (case createErrorPayload err of
             Inl thrown \<Rightarrow> (Rejected thrown, w)
           | Inr v \<Rightarrow> (Fulfilled v, w))
      | Pending \<Rightarrow> (Pending, w))"
  by (simp add: orgUnit_def then2_def run_handler_def split: settled.splits sum.splits)





section \<open>The rule adapters\<close>

text \<open>
  Claim C2. For both rule adapters, when the validity argument is absent
  (undefined or null, or the argument array is too short to hold it) or has
  no \<open>from\<close> field, \<open>validate\<close> returns \<open>true\<close>, whatever the value, the other
  arguments and the check behind the adapter are.
\<close>

theorem validate_without_from:
  "nullish (arg args 2) \<or> get_prop (arg args 2) ''from'' = Inr JUndefined \<Longrightarrow>
   validate_association existingAssociations value args = Inr (Value (JBool True))
   \<and> validate_candidate_parent candidateParentOrgUnit value args = Inr (Value (JBool True))"
  by (auto simp: validate_association_def validate_candidate_parent_def nullish_def Let_def)

text \<open>
  Witness for C2: a validity \<open>{to: '2024-01-01'}\<close> without \<open>from\<close>, and an empty
  argument array.
\<close>

theorem validate_without_from_witness:
  "get_prop (arg [JObj [(''uuid'', JStr ''e-1'')], JObj [(''uuid'', JStr ''ou-1'')],
                  JObj [(''to'', JStr ''2024-01-01'')], JStr ''a-1''] 2) ''from'' = Inr JUndefined
   \<and> validate_association pending_existingAssociations (JStr ''x'')
       [JObj [(''uuid'', JStr ''e-1'')], JObj [(''uuid'', JStr ''ou-1'')],
        JObj [(''to'', JStr ''2024-01-01'')], JStr ''a-1''] = Inr (Value (JBool True))
   \<and> validate_candidate_parent pending_candidateParentOrgUnit (JStr ''x'')
       [JObj [(''uuid'', JStr ''e-1'')], JObj [(''uuid'', JStr ''ou-1'')],
        JObj [(''to'', JStr ''2024-01-01'')], JStr ''a-1''] = Inr (Value (JBool True))
   \<and> nullish (arg [] 2)
   \<and> validate_association pending_existingAssociations (JStr ''x'') []
       = Inr (Value (JBool True))
   \<and> validate_candidate_parent pending_candidateParentOrgUnit (JStr ''x'') []
       = Inr (Value (JBool True))"
  using validate_without_from
      [of "[JObj [(''uuid'', JStr ''e-1'')], JObj [(''uuid'', JStr ''ou-1'')],
            JObj [(''to'', JStr ''2024-01-01'')], JStr ''a-1'']"
          pending_existingAssociations "JStr ''x''" pending_candidateParentOrgUnit]
    validate_without_from
      [of "[]" pending_existingAssociations "JStr ''x''" pending_candidateParentOrgUnit]
  by (simp add: arg_def nullish_def)

text \<open>
  Claim C9. The association adapter's \<open>validate\<close> is not total: when validity
  is present with a non-empty \<open>from\<close> but the employee argument is null or
  undefined, it throws a TypeError, because the guard evaluates
  \<open>Object.keys(employee)\<close> before \<open>!employee\<close>.
\<close>

theorem validate_association_throws:
  "nullish (arg args 0) \<Longrightarrow> truthy (arg args 2) \<Longrightarrow>
   get_prop (arg args 2) ''from'' = Inr from \<Longrightarrow> truthy from \<Longrightarrow>
   validate_association existingAssociations value args = Inl TypeError"
  by (auto simp: validate_association_def nullish_def Let_def)

text \<open>
  Witness for C9: the employee is \<open>null\<close> and validity is
  \<open>{from: '2024-01-01'}\<close>.
\<close>

theorem validate_association_throws_witness:
  "nullish (arg [JNull, JObj [(''uuid'', JStr ''ou-1'')],
                 JObj [(''from'', JStr ''2024-01-01'')], JStr ''a-1''] 0)
   \<and> truthy (arg [JNull, JObj [(''uuid'', JStr ''ou-1'')],
                  JObj [(''from'', JStr ''2024-01-01'')], JStr ''a-1''] 2)
   \<and> truthy (JStr ''2024-01-01'')
   \<and> validate_association pending_existingAssociations (JStr ''x'')
       [JNull, JObj [(''uuid'', JStr ''ou-1'')],
        JObj [(''from'', JStr ''2024-01-01'')], JStr ''a-1''] = Inl TypeError"
  using validate_association_throws
      [of "[JNull, JObj [(''uuid'', JStr ''ou-1'')],
            JObj [(''from'', JStr ''2024-01-01'')], JStr ''a-1'']" "JStr ''2024-01-01''"
          pending_existingAssociations "JStr ''x''"]
  by (simp add: arg_def nullish_def)

section \<open>The Validate client: errors without an error key\<close>

text \<open>
  Claim C7, as stated: whenever the error key cannot be extracted from the
  body of the rejected response, the conversion of the error throws and the
  promise rejects. This fails when the body is there and only lacks the field
  (a 500 answer with the body \<open>{}\<close>): the key reads as undefined, nothing
  throws, and both promises resolve to \<open>{valid: false, data: undefined}\<close>.
\<close>

theorem validate_client_resolves_without_key:
  "get_path keyless_error [''response'', ''data'', ''error_key''] = Inr JUndefined
   \<and> cpr keyless_backend (JStr ''0101011234'') (JArr [JStr ''org-1'']) idle
       = (Inr (Fulfilled (JObj [(''valid'', JBool False), (''data'', JUndefined)])), idle)
   \<and> orgUnit keyless_backend (JStr ''ou-1'') (JObj [(''from'', JStr ''2024-01-01'')]) idle
       = (Fulfilled (JObj [(''valid'', JBool False), (''data'', JUndefined)]), idle)"
  by (simp add: cpr_unfold orgUnit_unfold Validate_post_def keyless_backend_def
      createErrorPayload_def keyless_error_def)

text \<open>
  Claim C7, amended. When the HTTP call of \<open>Validate.cpr\<close> or
  \<open>Validate.orgUnit\<close> is rejected with an error that has no response, or whose
  response has no body (null or undefined), the conversion of the error
  throws a TypeError and the returned promise rejects with it instead of
  resolving to a \<open>{valid: false, data: ...}\<close> result. When the body is there
  and only the \<open>error_key\<close> field is missing, nothing throws and the promise
  resolves to \<open>{valid: false, data: undefined}\<close>.
\<close>

theorem validate_client_error_conversion:
  "(no_response_body err \<longrightarrow>
      (get_index org 0 = Inr org0
         \<and> Validate_post transport ''/cpr/''
             (JObj [(''cpr_no'', cpr_no), (''org'', JObj [(''uuid'', org0)])]) = Rejected err
         \<longrightarrow> cpr transport cpr_no org w = (Inr (Rejected TypeError), w))
      \<and> (Validate_post transport ''/org-unit/''
             (JObj [(''org_unit'', JObj [(''uuid'', org_unit)]), (''validity'', validity)])
             = Rejected err
         \<longrightarrow> orgUnit transport org_unit validity w = (Rejected TypeError, w)))
   \<and> (get_path err [''response'', ''data'', ''error_key''] = Inr JUndefined \<longrightarrow>
      (get_index org 0 = Inr org0
         \<and> Validate_post transport ''/cpr/''
             (JObj [(''cpr_no'', cpr_no), (''org'', JObj [(''uuid'', org0)])]) = Rejected err
         \<longrightarrow> cpr transport cpr_no org w
               = (Inr (Fulfilled (JObj [(''valid'', JBool False), (''data'', JUndefined)])), w))
      \<and> (Validate_post transport ''/org-unit/''
             (JObj [(''org_unit'', JObj [(''uuid'', org_unit)]), (''validity'', validity)])
             = Rejected err
         \<longrightarrow> orgUnit transport org_unit validity w
               = (Fulfilled (JObj [(''valid'', JBool False), (''data'', JUndefined)]), w)))"
  by (simp add: cpr_unfold orgUnit_unfold createErrorPayload_no_body
      createErrorPayload_wellformed)

text \<open>
  Witness for C7: the network is down, so the error carries no response; and
  a 500 answer whose body is \<open>{}\<close>.
\<close>

theorem validate_client_error_conversion_witness:
  "no_response_body network_error
   \<and> cpr offline_backend (JStr ''0101011234'') (JArr [JStr ''org-1'']) idle
       = (Inr (Rejected TypeError), idle)
   \<and> orgUnit offline_backend (JStr ''ou-1'') (JObj [(''from'', JStr ''2024-01-01'')]) idle
       = (Rejected TypeError, idle)
   \<and> get_path keyless_error [''response'', ''data'', ''error_key''] = Inr JUndefined
   \<and> cpr keyless_backend (JStr ''0101011234'') (JArr [JStr ''org-1'']) idle
       = (Inr (Fulfilled (JObj [(''valid'', JBool False), (''data'', JUndefined)])), idle)
   \<and> orgUnit keyless_backend (JStr ''ou-1'') (JObj [(''from'', JStr ''2024-01-01'')]) idle
       = (Fulfilled (JObj [(''valid'', JBool False), (''data'', JUndefined)]), idle)"
proof -
  have m: "no_response_body network_error"
    by (simp add: no_response_body_def network_error_def)
  have k: "get_path keyless_error [''response'', ''data'', ''error_key''] = Inr JUndefined"
    by (simp add: keyless_error_def)
  from validate_client_error_conversion [of network_error "JArr [JStr ''org-1'']"
      "JStr ''org-1''" offline_backend "JStr ''0101011234''" idle "JStr ''ou-1''"
      "JObj [(''from'', JStr ''2024-01-01'')]"]
    validate_client_error_conversion [of keyless_error "JArr [JStr ''org-1'']"
      "JStr ''org-1''" keyless_backend "JStr ''0101011234''" idle "JStr ''ou-1''"
      "JObj [(''from'', JStr ''2024-01-01'')]"] m k
  show ?thesis by (simp add: Validate_post_def offline_backend_def keyless_backend_def)
qed

section \<open>The picker: toggling the tree\<close>

text \<open>
  Claim C8, as stated: from every state of the picker, two calls of
  \<open>toggleTree\<close> leave it collapsed (\<open>showTree\<close> false). This fails from an
  expanded state, such as the one reached by one toggle from the initial
  state: two more toggles leave the tree expanded.
\<close>

theorem toggleTree_twice_from_expanded:
  "showTree (toggleTree data) = True
   \<and> showTree (toggleTree (toggleTree (toggleTree data))) \<noteq> False"
  by (simp add: toggleTree_def data_def)

text \<open>
  Claim C8, amended. From every state of the picker, with no node selected in
  between, two calls of \<open>toggleTree\<close> return \<open>showTree\<close> to the value it had
  before the first (so a collapsed picker is collapsed again), and leave
  \<open>selectedSuperUnit\<close> and \<open>orgName\<close> unchanged.
\<close>

theorem toggleTree_twice:
  "showTree (toggleTree (toggleTree this)) = showTree this
   \<and> selectedSuperUnit (toggleTree (toggleTree this)) = selectedSuperUnit this
   \<and> orgName (toggleTree (toggleTree this)) = orgName this"
  by (simp add: toggleTree_def)

section \<open>The Employee client: what a call does\<close>

lemma log_error_response_TypeError:
  "log_error_response TypeError w = (Inr JUndefined, console_log JUndefined w)"
  by (simp add: log_error_response_def TypeError_def)

text \<open>The chain shared by \<open>createEntry\<close> and \<open>edit\<close>, by the way the request settles.\<close>

lemma mutation_fulfilled:
  "p = Fulfilled response \<Longrightarrow> get_prop response ''data'' = Inr d \<Longrightarrow>
   (let (q, w1) = then1 p publish_changed w in catch q log_error_response w1)
     = (Fulfilled d, emit ''employee-changed'' d w)"
  by (simp add: then1_def catch_def run_handler_def publish_changed_def)

lemma mutation_fulfilled_no_data:
  "p = Fulfilled response \<Longrightarrow> nullish response \<Longrightarrow>
   (let (q, w1) = then1 p publish_changed w in catch q log_error_response w1)
     = (Fulfilled JUndefined, console_log JUndefined w)"
  by (simp add: then1_def catch_def run_handler_def publish_changed_def get_prop_nullish
      log_error_response_TypeError)

lemma mutation_rejected:
  "p = Rejected err \<Longrightarrow> get_prop err ''response'' = Inr r \<Longrightarrow>
   (let (q, w1) = then1 p publish_changed w in catch q log_error_response w1)
     = (Fulfilled JUndefined, console_log r w)"
  by (simp add: then1_def catch_def run_handler_def log_error_response_def)

lemma mutation_settles:
  assumes "p = Fulfilled response \<or> p = Rejected err \<and> \<not> nullish err"
  shows "\<exists>v w1. (let (q, w1) = then1 p publish_changed w in catch q log_error_response w1)
                  = (Fulfilled v, w1)"
proof -
  from assms consider
      (no_data) "p = Fulfilled response" "nullish response"
    | (ok) d where "p = Fulfilled response" "get_prop response ''data'' = Inr d"
    | (failed) r where "p = Rejected err" "get_prop err ''response'' = Inr r"
    using get_prop_defined by metis
  then show ?thesis
  proof cases
    case no_data
    then show ?thesis using mutation_fulfilled_no_data by blast
  next
    case ok
    then show ?thesis using mutation_fulfilled by blast
  next
    case failed
    then show ?thesis using mutation_rejected by blast
  qed
qed

lemma createEntry_fulfilled:
  "Service_post Service (''/e/'' @ ToString uuid @ ''/create'') payload = Fulfilled response \<Longrightarrow>
   get_prop response ''data'' = Inr d \<Longrightarrow>
   createEntry Service uuid payload w = (Fulfilled d, emit ''employee-changed'' d w)"
  unfolding createEntry_def by (rule mutation_fulfilled)

lemma createEntry_rejected:
  "Service_post Service (''/e/'' @ ToString uuid @ ''/create'') payload = Rejected err \<Longrightarrow>
   get_prop err ''response'' = Inr r \<Longrightarrow>
   createEntry Service uuid payload w = (Fulfilled JUndefined, console_log r w)"
  unfolding createEntry_def by (rule mutation_rejected)

lemma edit_fulfilled:
  "Service_post Service (''/e/'' @ ToString uuid @ ''/edit'') payload = Fulfilled response \<Longrightarrow>
   get_prop response ''data'' = Inr d \<Longrightarrow>
   edit Service uuid payload w = (Fulfilled d, emit ''employee-changed'' d w)"
  unfolding edit_def by (rule mutation_fulfilled)

lemma edit_rejected:
  "Service_post Service (''/e/'' @ ToString uuid @ ''/edit'') payload = Rejected err \<Longrightarrow>
   get_prop err ''response'' = Inr r \<Longrightarrow>
   edit Service uuid payload w = (Fulfilled JUndefined, console_log r w)"
  unfolding edit_def by (rule mutation_rejected)

lemma terminate_fulfilled:
  "Service_post Service (''/e/'' @ ToString uuid @ ''/terminate'') payload = Fulfilled response \<Longrightarrow>
   get_prop response ''data'' = Inr d \<Longrightarrow>
   terminate Service uuid payload w
     = (Fulfilled d, emit ''employee-terminate'' d (emit ''employee-changed'' d w))"
  by (simp add: terminate_def then1_def catch_def run_handler_def)

lemma terminate_rejected:
  "Service_post Service (''/e/'' @ ToString uuid @ ''/terminate'') payload = Rejected err \<Longrightarrow>
   get_prop err ''response'' = Inr r \<Longrightarrow>
   terminate Service uuid payload w = (Fulfilled JUndefined, console_log r w)"
  by (simp add: terminate_def then1_def catch_def run_handler_def log_error_response_def)

lemma wrapper_then:
  "then1 (Fulfilled v) (\<lambda>response w. (Inr JUndefined, emit name response w)) w
     = (Fulfilled JUndefined, emit name v w)"
  by (simp add: then1_def run_handler_def)

lemma get_fulfilled:
  "Service_get Service (''/e/'' @ ToString uuid @ ''/'') = Fulfilled response \<Longrightarrow>
   get_prop response ''data'' = Inr d \<Longrightarrow> get_prop d ''org'' = Inr org \<Longrightarrow>
   get Service uuid w = (Fulfilled d, emit ''organisation-changed'' org w)"
  by (simp add: get_def then1_def catch_def run_handler_def)

text \<open>
  The operations that end in \<open>.catch\<close> absorb a failed request: the error's
  response is logged and the promise resolves to undefined. \<open>history\<close> has no
  \<open>.catch\<close> and hands the rejection on.
\<close>

lemma getAll_rejected:
  "Service_get Service (''/o/'' @ ToString orgUuid @ ''/e/'') = Rejected err \<Longrightarrow>
   get_prop err ''response'' = Inr r \<Longrightarrow>
   getAll Service orgUuid w = (Fulfilled JUndefined, console_log r w)"
  by (simp add: getAll_def then1_def catch_def run_handler_def log_error_response_def)

lemma get_rejected:
  "Service_get Service (''/e/'' @ ToString uuid @ ''/'') = Rejected err \<Longrightarrow>
   get_prop err ''response'' = Inr r \<Longrightarrow>
   get Service uuid w = (Fulfilled JUndefined, console_log r w)"
  by (simp add: get_def then1_def catch_def run_handler_def log_error_response_def)

lemma getDetail_rejected:
  "Service_get Service (''/e/'' @ ToString uuid @ ''/details/'' @ ToString detail
      @ ''?validity='' @ ToString (js_or validity (JStr ''present''))) = Rejected err \<Longrightarrow>
   get_prop err ''response'' = Inr r \<Longrightarrow>
   getDetail Service uuid detail validity w = (Fulfilled JUndefined, console_log r w)"
  by (simp add: getDetail_def then1_def catch_def run_handler_def log_error_response_def)

lemma getDetailList_rejected:
  "Service_get Service (''e/'' @ ToString uuid @ ''/details/'') = Rejected err \<Longrightarrow>
   get_prop err ''response'' = Inr r \<Longrightarrow>
   getDetailList Service uuid w = (Fulfilled JUndefined, console_log r w)"
  by (simp add: getDetailList_def then1_def catch_def run_handler_def log_error_response_def)

lemma history_rejected:
  "Service_get Service (''/e/'' @ ToString uuid @ ''/history/'') = Rejected err \<Longrightarrow>
   history Service uuid w = (Rejected err, w)"
  by (simp add: history_def then1_def)

section \<open>The Employee client: change events\<close>

text \<open>
  Claim C3. For each mutating operation (\<open>createEntry\<close>, \<open>edit\<close>, \<open>terminate\<close>
  and the wrappers \<open>create\<close>, \<open>leave\<close>, \<open>move\<close>), a call whose request succeeds
  with a response carrying the data \<open>d\<close> publishes exactly one
  \<open>employee-changed\<close> event, and publishes it before any operation-specific
  event of the same call: the events published are \<open>employee-changed\<close> alone,
  or \<open>employee-changed\<close> followed by the one specific event, each with \<open>d\<close>.
\<close>

theorem mutation_publishes_generic_first:
  assumes "get_prop response ''data'' = Inr d"
  shows
  "(Service_post Service (''/e/'' @ ToString uuid @ ''/create'') payload = Fulfilled response \<longrightarrow>
      published w (snd (createEntry Service uuid payload w)) = [(''employee-changed'', d)]
    \<and> published w (snd (create Service uuid payload w))
        = [(''employee-changed'', d), (''employee-create'', d)]
    \<and> published w (snd (leave Service uuid payload w))
        = [(''employee-changed'', d), (''employee-leave'', d)]
    \<and> generic_count (published w (snd (createEntry Service uuid payload w))) = 1
    \<and> generic_first (published w (snd (createEntry Service uuid payload w)))
    \<and> generic_count (published w (snd (create Service uuid payload w))) = 1
    \<and> generic_first (published w (snd (create Service uuid payload w)))
    \<and> generic_count (published w (snd (leave Service uuid payload w))) = 1
    \<and> generic_first (published w (snd (leave Service uuid payload w))))
   \<and> (Service_post Service (''/e/'' @ ToString uuid @ ''/edit'') payload = Fulfilled response \<longrightarrow>
      published w (snd (edit Service uuid payload w)) = [(''employee-changed'', d)]
    \<and> published w (snd (move Service uuid payload w))
        = [(''employee-changed'', d), (''employee-move'', d)]
    \<and> generic_count (published w (snd (edit Service uuid payload w))) = 1
    \<and> generic_first (published w (snd (edit Service uuid payload w)))
    \<and> generic_count (published w (snd (move Service uuid payload w))) = 1
    \<and> generic_first (published w (snd (move Service uuid payload w))))
   \<and> (Service_post Service (''/e/'' @ ToString uuid @ ''/terminate'') payload = Fulfilled response \<longrightarrow>
      published w (snd (terminate Service uuid payload w))
        = [(''employee-changed'', d), (''employee-terminate'', d)]
    \<and> generic_count (published w (snd (terminate Service uuid payload w))) = 1
    \<and> generic_first (published w (snd (terminate Service uuid payload w))))"
proof (intro conjI impI)
  assume ok: "Service_post Service (''/e/'' @ ToString uuid @ ''/create'') payload = Fulfilled response"
  note ce = createEntry_fulfilled [OF ok assms]
  show c1: "published w (snd (createEntry Service uuid payload w)) = [(''employee-changed'', d)]"
    by (simp add: ce published_append events_emit)
  show c2: "published w (snd (create Service uuid payload w))
        = [(''employee-changed'', d), (''employee-create'', d)]"
    by (simp add: create_def ce wrapper_then published_append events_emit)
  show c3: "published w (snd (leave Service uuid payload w))
        = [(''employee-changed'', d), (''employee-leave'', d)]"
    by (simp add: leave_def ce wrapper_then published_append events_emit)
  show "generic_count (published w (snd (createEntry Service uuid payload w))) = 1"
    and "generic_first (published w (snd (createEntry Service uuid payload w)))"
    unfolding c1 by (simp_all add: generic_changed_only)
  show "generic_count (published w (snd (create Service uuid payload w))) = 1"
    and "generic_first (published w (snd (create Service uuid payload w)))"
    unfolding c2 by (simp_all add: generic_changed_then)
  show "generic_count (published w (snd (leave Service uuid payload w))) = 1"
    and "generic_first (published w (snd (leave Service uuid payload w)))"
    unfolding c3 by (simp_all add: generic_changed_then)
next
  assume ok: "Service_post Service (''/e/'' @ ToString uuid @ ''/edit'') payload = Fulfilled response"
  note ed = edit_fulfilled [OF ok assms]
  show e1: "published w (snd (edit Service uuid payload w)) = [(''employee-changed'', d)]"
    by (simp add: ed published_append events_emit)
  show e2: "published w (snd (move Service uuid payload w))
        = [(''employee-changed'', d), (''employee-move'', d)]"
    by (simp add: move_def ed wrapper_then published_append events_emit)
  show "generic_count (published w (snd (edit Service uuid payload w))) = 1"
    and "generic_first (published w (snd (edit Service uuid payload w)))"
    unfolding e1 by (simp_all add: generic_changed_only)
  show "generic_count (published w (snd (move Service uuid payload w))) = 1"
    and "generic_first (published w (snd (move Service uuid payload w)))"
    unfolding e2 by (simp_all add: generic_changed_then)
next
  assume ok: "Service_post Service (''/e/'' @ ToString uuid @ ''/terminate'') payload = Fulfilled response"
  note te = terminate_fulfilled [OF ok assms]
  show t1: "published w (snd (terminate Service uuid payload w))
        = [(''employee-changed'', d), (''employee-terminate'', d)]"
    by (simp add: te published_append events_emit)
  show "generic_count (published w (snd (terminate Service uuid payload w))) = 1"
    and "generic_first (published w (snd (terminate Service uuid payload w)))"
    unfolding t1 by (simp_all add: generic_changed_then)
qed

text \<open>
  Witness for C3: \<open>terminate('uuid-1', {validity: {to: '2024-01-01'}})\<close>, and
  \<open>create\<close> and \<open>move\<close> with the same arguments, against a backend that
  answers \<open>{uuid: 'uuid-1'}\<close>.
\<close>

theorem mutation_publishes_generic_first_witness:
  "get_prop (JObj [(''status'', JNum 200), (''data'', JObj [(''uuid'', JStr ''uuid-1'')])]) ''data''
     = Inr (JObj [(''uuid'', JStr ''uuid-1'')])
   \<and> published idle (snd (terminate accepting_backend (JStr ''uuid-1'')
         (JObj [(''validity'', JObj [(''to'', JStr ''2024-01-01'')])]) idle))
       = [(''employee-changed'', JObj [(''uuid'', JStr ''uuid-1'')]),
          (''employee-terminate'', JObj [(''uuid'', JStr ''uuid-1'')])]
   \<and> published idle (snd (create accepting_backend (JStr ''uuid-1'')
         (JObj [(''validity'', JObj [(''to'', JStr ''2024-01-01'')])]) idle))
       = [(''employee-changed'', JObj [(''uuid'', JStr ''uuid-1'')]),
          (''employee-create'', JObj [(''uuid'', JStr ''uuid-1'')])]
   \<and> generic_count (published idle (snd (move accepting_backend (JStr ''uuid-1'')
         (JObj [(''validity'', JObj [(''to'', JStr ''2024-01-01'')])]) idle))) = 1"
  using mutation_publishes_generic_first
    [of "JObj [(''status'', JNum 200), (''data'', JObj [(''uuid'', JStr ''uuid-1'')])]"
        "JObj [(''uuid'', JStr ''uuid-1'')]" accepting_backend "JStr ''uuid-1''"
        "JObj [(''validity'', JObj [(''to'', JStr ''2024-01-01'')])]" idle]
  by (simp add: accepting_backend_def Service_post_def generic_count_def)

text \<open>
  Claim C4 says that a mutating operation whose request fails publishes no
  event at all. At \<open>create('uuid-1', [])\<close>, \<open>leave('uuid-1', [])\<close> and
  \<open>move('uuid-1', [])\<close> against a backend that answers 500, the wrapper
  publishes its operation-specific event, with the payload undefined:
  \<open>createEntry\<close> and \<open>edit\<close> absorb the failure and resolve, so the wrapper's
  handler runs.
\<close>

theorem wrappers_publish_after_failure:
  "published idle (snd (create refusing_backend (JStr ''uuid-1'') (JArr []) idle))
     = [(''employee-create'', JUndefined)]
   \<and> published idle (snd (leave refusing_backend (JStr ''uuid-1'') (JArr []) idle))
     = [(''employee-leave'', JUndefined)]
   \<and> published idle (snd (move refusing_backend (JStr ''uuid-1'') (JArr []) idle))
     = [(''employee-move'', JUndefined)]"
proof -
  have r: "get_prop server_error ''response''
             = Inr (JObj [(''status'', JNum 500),
                          (''data'', JObj [(''error_key'', JStr ''E_UNKNOWN'')])])"
    by (simp add: server_error_def)
  have p: "\<And>path payload. Service_post refusing_backend path payload = Rejected server_error"
    by (simp add: Service_post_def refusing_backend_def)
  show ?thesis
    by (simp add: create_def leave_def move_def createEntry_rejected [OF p r]
        edit_rejected [OF p r] wrapper_then published_append events_emit events_console_log)
qed

text \<open>
  Where the event is published inside the success handler, a failed request
  publishes nothing.
\<close>

lemma direct_mutations_silent_on_failure:
  assumes "get_prop err ''response'' = Inr r"
  shows
  "(Service_post Service (''/e/'' @ ToString uuid @ ''/create'') payload = Rejected err
      \<longrightarrow> published w (snd (createEntry Service uuid payload w)) = [])
   \<and> (Service_post Service (''/e/'' @ ToString uuid @ ''/edit'') payload = Rejected err
      \<longrightarrow> published w (snd (edit Service uuid payload w)) = [])
   \<and> (Service_post Service (''/e/'' @ ToString uuid @ ''/terminate'') payload = Rejected err
      \<longrightarrow> published w (snd (terminate Service uuid payload w)) = [])"
  using assms
  by (simp add: createEntry_rejected edit_rejected terminate_rejected published_def
      events_console_log)

section \<open>The Employee client: reading an employee\<close>

text \<open>
  Claim C5, as stated: \<open>Employee.get('uuid-1')\<close> against a backend that
  answers the body \<open>{org: {uuid: 'org-1'}, name: 'X'}\<close> publishes one
  \<open>organisation-changed\<close> event whose payload is the string \<open>'org-1'\<close>. The
  payload is \<open>response.data.org\<close>, the object \<open>{uuid: 'org-1'}\<close>, not the
  string.
\<close>

theorem get_payload_is_not_the_uuid_string:
  "published idle (snd (get mock_backend (JStr ''uuid-1'') idle))
     \<noteq> [(''organisation-changed'', JStr ''org-1'')]"
  by (simp add: get_def Service_get_def mock_backend_def then1_def catch_def run_handler_def
      employee_body_def published_def idle_def emit_def)

text \<open>
  Claim C5, amended. \<open>Employee.get('uuid-1')\<close> against a backend that answers
  the body \<open>{org: {uuid: 'org-1'}, name: 'X'}\<close> publishes exactly one event,
  \<open>organisation-changed\<close> with the org object \<open>{uuid: 'org-1'}\<close> as payload,
  and the returned promise resolves to the full body.
\<close>

theorem get_publishes_org_object:
  "Service_get Service ''/e/uuid-1/'' = Fulfilled response \<Longrightarrow>
   get_prop response ''data'' = Inr employee_body \<Longrightarrow>
   published w (snd (get Service (JStr ''uuid-1'') w))
     = [(''organisation-changed'', JObj [(''uuid'', JStr ''org-1'')])]
   \<and> fst (get Service (JStr ''uuid-1'') w) = Fulfilled employee_body"
proof -
  assume a: "Service_get Service ''/e/uuid-1/'' = Fulfilled response"
    and b: "get_prop response ''data'' = Inr employee_body"
  have c: "get_prop employee_body ''org'' = Inr (JObj [(''uuid'', JStr ''org-1'')])"
    by (simp add: employee_body_def)
  have "get Service (JStr ''uuid-1'') w
          = (Fulfilled employee_body,
             emit ''organisation-changed'' (JObj [(''uuid'', JStr ''org-1'')]) w)"
    using a by (intro get_fulfilled [OF _ b c]) simp
  then show ?thesis
    by (simp add: published_append events_emit)
qed

text \<open>Witness for C5: the mock backend of the scenario.\<close>

theorem get_publishes_org_object_witness:
  "Service_get mock_backend ''/e/uuid-1/''
     = Fulfilled (JObj [(''status'', JNum 200), (''data'', employee_body)])
   \<and> published idle (snd (get mock_backend (JStr ''uuid-1'') idle))
     = [(''organisation-changed'', JObj [(''uuid'', JStr ''org-1'')])]
   \<and> fst (get mock_backend (JStr ''uuid-1'') idle) = Fulfilled employee_body"
proof -
  have a: "Service_get mock_backend ''/e/uuid-1/''
     = Fulfilled (JObj [(''status'', JNum 200), (''data'', employee_body)])"
    by (simp add: Service_get_def mock_backend_def)
  have b: "get_prop (JObj [(''status'', JNum 200), (''data'', employee_body)]) ''data''
     = Inr employee_body"
    by simp
  from get_publishes_org_object [OF a b, of idle] a show ?thesis by simp
qed

section \<open>The Employee client: failed requests and return values\<close>

text \<open>
  Claim C6 says that every operation, \<open>history\<close> among them, absorbs a failed
  request: the error is logged and the promise resolves to undefined. At
  \<open>history('uuid-1')\<close> against a backend that answers 500, the returned
  promise rejects with the error and nothing is logged.
\<close>

theorem history_rejects_on_failure:
  "history refusing_backend (JStr ''uuid-1'') idle = (Rejected server_error, idle)"
  by (simp add: history_def Service_get_def refusing_backend_def then1_def)

text \<open>
  Claim C10. Whenever the request settles, the wrappers \<open>create\<close>, \<open>leave\<close>
  and \<open>move\<close> resolve to undefined: also when the request succeeds, since the
  handler that publishes the operation-specific event returns nothing and the
  body that \<open>createEntry\<close> or \<open>edit\<close> resolved to is dropped. (A failed
  request is rejected by the HTTP client with an error object, never with
  null or undefined.)
\<close>

theorem wrappers_resolve_undefined:
  "(Service_post Service (''/e/'' @ ToString uuid @ ''/create'') payload = Fulfilled response
      \<or> Service_post Service (''/e/'' @ ToString uuid @ ''/create'') payload = Rejected err
          \<and> \<not> nullish err
    \<longrightarrow> fst (create Service uuid payload w) = Fulfilled JUndefined
        \<and> fst (leave Service uuid payload w) = Fulfilled JUndefined)
   \<and> (Service_post Service (''/e/'' @ ToString uuid @ ''/edit'') payload = Fulfilled response
      \<or> Service_post Service (''/e/'' @ ToString uuid @ ''/edit'') payload = Rejected err
          \<and> \<not> nullish err
    \<longrightarrow> fst (move Service uuid payload w) = Fulfilled JUndefined)"
proof (intro conjI impI)
  assume "Service_post Service (''/e/'' @ ToString uuid @ ''/create'') payload = Fulfilled response
      \<or> Service_post Service (''/e/'' @ ToString uuid @ ''/create'') payload = Rejected err
          \<and> \<not> nullish err"
  then obtain v w1 where ce: "createEntry Service uuid payload w = (Fulfilled v, w1)"
    unfolding createEntry_def using mutation_settles by blast
  show "fst (create Service uuid payload w) = Fulfilled JUndefined"
    by (simp add: create_def ce wrapper_then)
  show "fst (leave Service uuid payload w) = Fulfilled JUndefined"
    by (simp add: leave_def ce wrapper_then)
next
  assume "Service_post Service (''/e/'' @ ToString uuid @ ''/edit'') payload = Fulfilled response
      \<or> Service_post Service (''/e/'' @ ToString uuid @ ''/edit'') payload = Rejected err
          \<and> \<not> nullish err"
  then obtain v w1 where ed: "edit Service uuid payload w = (Fulfilled v, w1)"
    unfolding edit_def using mutation_settles by blast
  show "fst (move Service uuid payload w) = Fulfilled JUndefined"
    by (simp add: move_def ed wrapper_then)
qed

text \<open>
  Witness for C10: the three wrappers against a backend that accepts every
  request, and against one that answers 500.
\<close>

theorem wrappers_resolve_undefined_witness:
  "fst (create accepting_backend (JStr ''uuid-1'') (JArr []) idle) = Fulfilled JUndefined
   \<and> fst (leave accepting_backend (JStr ''uuid-1'') (JArr []) idle) = Fulfilled JUndefined
   \<and> fst (move accepting_backend (JStr ''uuid-1'') (JArr []) idle) = Fulfilled JUndefined
   \<and> \<not> nullish server_error
   \<and> fst (create refusing_backend (JStr ''uuid-1'') (JArr []) idle) = Fulfilled JUndefined
   \<and> fst (leave refusing_backend (JStr ''uuid-1'') (JArr []) idle) = Fulfilled JUndefined
   \<and> fst (move refusing_backend (JStr ''uuid-1'') (JArr []) idle) = Fulfilled JUndefined"
  using wrappers_resolve_undefined [of accepting_backend "JStr ''uuid-1''" "JArr []"
      "JObj [(''status'', JNum 200), (''data'', JObj [(''uuid'', JStr ''uuid-1'')])]"
      server_error idle]
    wrappers_resolve_undefined [of refusing_backend "JStr ''uuid-1''" "JArr []"
      "JObj [(''status'', JNum 200), (''data'', JObj [(''uuid'', JStr ''uuid-1'')])]"
      server_error idle]
  by (simp add: Service_post_def accepting_backend_def refusing_backend_def nullish_def
      server_error_def)

end
